theory Spec2Isabelle
  imports Main "HOL-Library.Word"
begin

section \<open>Overview\<close>

text \<open>
  Two serverless HTTP handlers are modelled. The task-store handler (\<open>module.exports\<close>
  with \<open>getSQLConnection\<close> and \<open>execQuery\<close>) turns a request into one SQL statement
  on the table \<open>dbo.Todo\<close> and answers with the rows; the notification handler
  (\<open>run\<close> of \<open>finishTaskNotification\<close>) posts an activity notification on behalf of
  the caller. Both are asynchronous functions over libraries that are not part of the
  repository, so a handler is modelled as a function of the request and of what each
  library call does; its result is the list of the calls it made, in order, and the way
  it ended: with a response, with a rejection, or never.
\<close>

section \<open>JavaScript values\<close>

text \<open>
  The values that travel through the two handlers, as JSON gives them: request bodies,
  query parameters, tokens, profile objects and result columns. A number is a safe
  integer, from \<open>-2^53\<close> to \<open>2^53 - 1\<close>: these are held exactly and printed digit by
  digit, so the type of numbers is the 54-bit signed word; fractions, NaN and larger
  numbers are not values of the model. An object is the list of its own properties in
  property order; none of its properties is a function.
\<close>

type_synonym safe_int = "54 word"

datatype jsval =
    JUndefined
  | JNull
  | JBool bool
  | JNum safe_int
  | JStr string
  | JArr "jsval list"
  | JObj "(string \<times> jsval) list"

text \<open>
  An exception. The engine raises a \<open>TypeError\<close> when a property of \<open>undefined\<close> or
  \<open>null\<close> is read (\<open>CannotRead\<close>, with the property and the value) and when an object
  has no text (\<open>CannotConvert\<close>); \<open>Error\<close> is an error thrown by a collaborator.
\<close>

datatype exn =
    CannotRead string jsval
  | CannotConvert
  | Error string

subsection \<open>Conversion to text\<close>

definition digit_char :: "nat \<Rightarrow> char" where
  "digit_char d = ''0123456789'' ! d"

fun show_nat :: "nat \<Rightarrow> string" where
  "show_nat n = (if n < 10 then [digit_char n] else show_nat (n div 10) @ [digit_char (n mod 10)])"

declare show_nat.simps [simp del]

definition show_int :: "int \<Rightarrow> string" where
  "show_int i = (if i < 0 then CHR ''-'' # show_nat (nat (- i)) else show_nat (nat i))"

fun join :: "string list \<Rightarrow> string" where
  "join [] = []"
| "join [s] = s"
| "join (s # t # ts) = s @ '','' @ join (t # ts)"

text \<open>
  \<open>to_string v\<close> is the text a template literal \<open>${v}\<close> or a concatenation with a
  string puts in place of \<open>v\<close>, or the \<open>TypeError\<close> it throws. An object is asked for
  its \<open>toString\<close>: an object without an own property of that name inherits the one that
  answers \<open>[object Object]\<close>; an own property \<open>toString\<close> is no function, the inherited
  \<open>valueOf\<close> (or an own one) gives no primitive either, and the conversion throws. An
  array joins the texts of its elements with commas, \<open>undefined\<close> and \<open>null\<close>
  elements giving the empty text, and throws where an element does.
\<close>

fun to_string :: "jsval \<Rightarrow> exn + string"
  and element_texts :: "jsval list \<Rightarrow> exn + string list" where
  "to_string JUndefined = Inr ''undefined''"
| "to_string JNull = Inr ''null''"
| "to_string (JBool b) = Inr (if b then ''true'' else ''false'')"
| "to_string (JNum n) = Inr (show_int (sint n))"
| "to_string (JStr s) = Inr s"
| "to_string (JArr vs) =
     (case element_texts vs of Inl e \<Rightarrow> Inl e | Inr texts \<Rightarrow> Inr (join texts))"
| "to_string (JObj kvs) =
     (if map_of kvs ''toString'' = None then Inr ''[object Object]'' else Inl CannotConvert)"
| "element_texts [] = Inr []"
| "element_texts (v # vs) =
     (case (if v = JUndefined \<or> v = JNull then Inr [] else to_string v) of
        Inl e \<Rightarrow> Inl e
      | Inr text \<Rightarrow>
          (case element_texts vs of Inl e \<Rightarrow> Inl e | Inr texts \<Rightarrow> Inr (text # texts)))"

text \<open>The conversion to a boolean that \<open>if (v)\<close>, \<open>v ? a : b\<close>, \<open>!v\<close> and
  \<open>v || w\<close> apply.\<close>

fun truthy :: "jsval \<Rightarrow> bool" where
  "truthy JUndefined = False"
| "truthy JNull = False"
| "truthy (JBool b) = b"
| "truthy (JNum n) = (n \<noteq> 0)"
| "truthy (JStr s) = (s \<noteq> [])"
| "truthy (JArr vs) = True"
| "truthy (JObj kvs) = True"

text \<open>Reading the property \<open>p\<close> of \<open>v\<close>, for the property names the handlers read
  (none of them is inherited from a prototype, so a primitive or an array has none).\<close>

fun get_prop :: "jsval \<Rightarrow> string \<Rightarrow> exn + jsval" where
  "get_prop JUndefined p = Inl (CannotRead p JUndefined)"
| "get_prop JNull p = Inl (CannotRead p JNull)"
| "get_prop (JObj kvs) p = Inr (case map_of kvs p of None \<Rightarrow> JUndefined | Some x \<Rightarrow> x)"
| "get_prop v p = Inr JUndefined"

text \<open>The text of \<open>err.message\<close> (the wording of the engine's own errors is V8's).\<close>

fun message :: "exn \<Rightarrow> string" where
  "message (CannotRead p v) =
     ''Cannot read properties of '' @ (if v = JNull then ''null'' else ''undefined'')
     @ '' (reading '' @ [CHR 0x27] @ p @ [CHR 0x27] @ '')''"
| "message CannotConvert = ''Cannot convert object to primitive value''"
| "message (Error m) = m"

text \<open>\<open>toLowerCase\<close>: the ASCII capitals are the only characters whose lower case
  is a letter of a method name the handler knows.\<close>

definition to_lower_char :: "char \<Rightarrow> char" where
  "to_lower_char c =
     (case map_of (zip ''ABCDEFGHIJKLMNOPQRSTUVWXYZ'' ''abcdefghijklmnopqrstuvwxyz'') c of
        None \<Rightarrow> c | Some l \<Rightarrow> l)"

definition toLowerCase :: "string \<Rightarrow> string" where
  "toLowerCase s = map to_lower_char s"

text \<open>Sequencing of steps that may throw.\<close>

definition try_then :: "exn + 'a \<Rightarrow> ('a \<Rightarrow> exn + 'b) \<Rightarrow> exn + 'b" where
  "try_then r f = (case r of Inl e \<Rightarrow> Inl e | Inr x \<Rightarrow> f x)"

section \<open>The task-store handler\<close>

text \<open>The inbound request (\<open>req.method\<close> is a method name or \<open>null\<close>) and the response.\<close>

record request =
  req_method :: "string option"
  req_query :: jsval
  req_body :: jsval
  req_headers :: jsval

record response =
  status :: nat
  body :: jsval

subsection \<open>Query construction\<close>

text \<open>\<open>x ? 1 : 0\<close> inside a template literal.\<close>

definition flag :: "jsval \<Rightarrow> string" where
  "flag v = (if truthy v then ''1'' else ''0'')"

text \<open>
  The \<open>switch (method)\<close> of the handler. The result is the value of the variable
  \<open>query\<close> after the switch: the statement text, or \<open>undefined\<close> when no case matched;
  \<open>Inl\<close> is the exception that a property read or the conversion of an interpolated
  value raised on the way, the substitutions of a template being evaluated and converted
  from left to right.
\<close>

definition build_query :: "string \<Rightarrow> request \<Rightarrow> jsval \<Rightarrow> exn + jsval" where
  "build_query method req objectId =
    (if method = ''get'' then
       try_then (get_prop (req_query req) ''channelOrChatId'') (\<lambda>channelOrChatId.
       try_then (to_string channelOrChatId) (\<lambda>channel_text.
       Inr (JStr (''select id, description, isCompleted, objectId from dbo.Todo where channelOrChatId = ''
              @ [CHR 0x27] @ channel_text @ [CHR 0x27]))))
     else if method = ''put'' then
       try_then (get_prop (req_body req) ''description'') (\<lambda>description.
       if truthy description then
         try_then (to_string description) (\<lambda>description_text.
         try_then (get_prop (req_body req) ''id'') (\<lambda>id.
         try_then (to_string id) (\<lambda>id_text.
         Inr (JStr (''update dbo.Todo set description = N'' @ [CHR 0x27] @ description_text
                @ [CHR 0x27] @ '' where id = '' @ id_text)))))
       else
         try_then (get_prop (req_body req) ''isCompleted'') (\<lambda>isCompleted.
         try_then (get_prop (req_body req) ''id'') (\<lambda>id.
         try_then (to_string id) (\<lambda>id_text.
         Inr (JStr (''update dbo.Todo set isCompleted = '' @ flag isCompleted
                @ '' where id = '' @ id_text))))))
     else if method = ''post'' then
       try_then (get_prop (req_body req) ''description'') (\<lambda>description.
       try_then (to_string description) (\<lambda>description_text.
       try_then (to_string objectId) (\<lambda>objectId_text.
       try_then (get_prop (req_body req) ''isCompleted'') (\<lambda>isCompleted.
       try_then (get_prop (req_body req) ''channelOrChatId'') (\<lambda>channelOrChatId.
       try_then (to_string channelOrChatId) (\<lambda>channel_text.
       Inr (JStr (''insert into dbo.Todo (description, objectId, isCompleted, channelOrChatId) values (N''
              @ [CHR 0x27] @ description_text @ [CHR 0x27] @ '','' @ [CHR 0x27]
              @ objectId_text @ [CHR 0x27] @ '','' @ flag isCompleted @ '','' @ [CHR 0x27]
              @ channel_text @ [CHR 0x27] @ '')''))))))))
     else if method = ''delete'' then
       (if truthy (req_body req) then
          try_then (get_prop (req_body req) ''id'') (\<lambda>id.
          try_then (to_string id) (\<lambda>id_text.
          Inr (JStr (''delete from dbo.Todo where '' @ ''id = '' @ id_text))))
        else
          try_then (to_string objectId) (\<lambda>objectId_text.
          Inr (JStr (''delete from dbo.Todo where '' @ ''objectId = '' @ [CHR 0x27]
                 @ objectId_text @ [CHR 0x27]))))
     else Inr JUndefined)"

subsection \<open>Effects\<close>

text \<open>
  What a piece of asynchronous code comes to: it completes with a value, it throws (or the
  promise it awaits rejects), or the promise it awaits never settles. Beside that it leaves
  the list of the calls it made on its collaborators, in order.
\<close>

datatype 'a step = Done 'a | Raise exn | Stuck

datatype action =
    LoadConfiguration
  | GetConfig
  | NewConnection
  | NewCredential jsval
  | GetUserInfo
  | ExecSql jsval
  | Uncaught exn
  | Close

type_synonym ('x, 'a) proc = "'x list \<times> 'a step"

definition andThen :: "('x, 'a) proc \<Rightarrow> ('a \<Rightarrow> ('x, 'b) proc) \<Rightarrow> ('x, 'b) proc" where
  "andThen m f =
     (case m of
        (l, Done x) \<Rightarrow> (case f x of (l', r) \<Rightarrow> (l @ l', r))
      | (l, Raise e) \<Rightarrow> (l, Raise e)
      | (l, Stuck) \<Rightarrow> (l, Stuck))"

definition pure :: "exn + 'a \<Rightarrow> ('x, 'a) proc" where
  "pure r = ([], case r of Inl e \<Rightarrow> Raise e | Inr x \<Rightarrow> Done x)"

definition call :: "'x \<Rightarrow> exn + 'a \<Rightarrow> ('x, 'a) proc" where
  "call a r = ([a], case r of Inl e \<Rightarrow> Raise e | Inr x \<Rightarrow> Done x)"

subsection \<open>The collaborators\<close>

text \<open>
  The libraries the handler calls are not part of the repository. What each call does for
  the request at hand is a parameter: it returns (\<open>Inr\<close>) or throws (\<open>Inl\<close>). The
  driver fires the \<open>connect\<close> event once the attempt to connect has ended, with the
  error if it failed. It answers \<open>execSql\<close> in one of two ways. It may refuse the
  request on the spot: before \<open>execSql\<close> returns it calls the request callback with an
  error (as it does on a connection that is not logged in), or \<open>execSql\<close> throws. Or it
  takes the request and delivers events to it later, in order: \<open>row\<close> events, the call
  of the request callback, and \<open>requestCompleted\<close>.
\<close>

datatype event =
    Row "(string \<times> jsval) list"
  | Callback "exn option"
  | RequestCompleted

datatype answer =
    Refused exn
  | Events "event list"

record world =
  loadConfiguration :: "exn + unit"
  getConfig :: "exn + unit"
  new_Connection :: "exn + unit"
  connect_error :: "exn option"
  new_OnBehalfOfUserCredential :: "jsval \<Rightarrow> exn + unit"
  getUserInfo :: "exn + jsval"
  execSql :: "jsval \<Rightarrow> answer"

subsection \<open>getSQLConnection\<close>

text \<open>The listener of the \<open>connect\<close> event: it resolves the promise with the
  connection, whatever \<open>error\<close> the event carries.\<close>

definition on_connect :: "exn option \<Rightarrow> unit step" where
  "on_connect error = Done ()"

definition getSQLConnection :: "world \<Rightarrow> (action, unit) proc" where
  "getSQLConnection w =
     andThen (call GetConfig (getConfig w)) (\<lambda>config.
     andThen (call NewConnection (new_Connection w)) (\<lambda>connection.
     ([], on_connect (connect_error w))))"

subsection \<open>execQuery\<close>

text \<open>
  Assigning \<open>row[name] = value\<close>. The own properties of an object are ordered: the
  array indices (canonical decimal numbers below \<open>2^32 - 1\<close>) in ascending order, then
  the other names in the order of their first assignment. An assignment to the name
  \<open>__proto__\<close> goes to the setter of the prototype and creates no own property.
\<close>

definition is_digit :: "char \<Rightarrow> bool" where
  "is_digit c = (c \<in> set ''0123456789'')"

definition digit_value :: "char \<Rightarrow> nat" where
  "digit_value c = of_char c - 48"

definition parse_nat :: "string \<Rightarrow> nat" where
  "parse_nat s = foldl (\<lambda>n c. 10 * n + digit_value c) 0 s"

definition is_array_index :: "string \<Rightarrow> bool" where
  "is_array_index k =
     (case k of
        [] \<Rightarrow> False
      | c # cs \<Rightarrow> list_all is_digit k \<and> (if c = CHR ''0'' then cs = [] else True)
                  \<and> parse_nat k < 2 ^ 32 - 1)"

fun insert_index :: "nat \<Rightarrow> string \<times> jsval \<Rightarrow> (string \<times> jsval) list \<Rightarrow> (string \<times> jsval) list" where
  "insert_index n kv [] = [kv]"
| "insert_index n kv ((k, v) # rest) =
     (if is_array_index k \<and> parse_nat k < n then (k, v) # insert_index n kv rest
      else kv # (k, v) # rest)"

definition set_prop :: "(string \<times> jsval) list \<Rightarrow> string \<Rightarrow> jsval \<Rightarrow> (string \<times> jsval) list" where
  "set_prop obj k v =
     (if k = ''__proto__'' then obj
      else if map_of obj k \<noteq> None then map (\<lambda>(k', v'). if k' = k then (k', v) else (k', v')) obj
      else if is_array_index k then insert_index (parse_nat k) (k, v) obj
      else obj @ [(k, v)])"

text \<open>The \<open>row\<close> listener builds one object from the columns of a row, a column being
  its \<open>metadata.colName\<close> and its \<open>value\<close>.\<close>

definition row_of :: "(string \<times> jsval) list \<Rightarrow> jsval" where
  "row_of columns = JObj (foldl (\<lambda>row (colName, val). set_prop row colName val) [] columns)"

text \<open>
  The state of one \<open>execQuery\<close> whose request the driver took: the array \<open>res\<close>, the
  value the promise was resolved with (if it was), and the errors thrown out of the
  request callback. Such an error is thrown inside the driver's later call of the
  callback, where no \<open>try\<close> of the handler is on the stack, and the promise has no
  \<open>reject\<close>. The driver emits \<open>requestCompleted\<close> as the last event of a request, so
  the array has its final content when the promise resolves.
\<close>

record exec_state =
  res :: "jsval list"
  resolved :: "jsval option"
  thrown :: "exn list"

fun on_event :: "exec_state \<Rightarrow> event \<Rightarrow> exec_state" where
  "on_event s (Row columns) = s\<lparr>res := res s @ [row_of columns]\<rparr>"
| "on_event s (Callback err) =
     (case err of None \<Rightarrow> s | Some e \<Rightarrow> s\<lparr>thrown := thrown s @ [e]\<rparr>)"
| "on_event s RequestCompleted =
     (case resolved s of None \<Rightarrow> s\<lparr>resolved := Some (JArr (res s))\<rparr> | Some r \<Rightarrow> s)"

definition run_events :: "event list \<Rightarrow> exec_state" where
  "run_events evs = foldl on_event \<lparr>res = [], resolved = None, thrown = []\<rparr> evs"

text \<open>
  \<open>execQuery\<close>. Where the driver refuses the request, the error is thrown by the request
  callback (or by \<open>execSql\<close>) while the executor of the promise is still running: the
  exception leaves the executor and the promise rejects. Where the driver takes the
  request, the promise settles only when \<open>requestCompleted\<close> resolves it.
\<close>

definition execQuery :: "world \<Rightarrow> jsval \<Rightarrow> (action, jsval) proc" where
  "execQuery w query =
     (case execSql w query of
        Refused err \<Rightarrow> ([ExecSql query], Raise err)
      | Events evs \<Rightarrow>
          (let s = run_events evs
           in (ExecSql query # map Uncaught (thrown s),
               case resolved s of None \<Rightarrow> Stuck | Some r \<Rightarrow> Done r)))"

subsection \<open>The handler\<close>

datatype outcome = Returned response | Rejected exn | Pending

definition error_response :: "exn \<Rightarrow> response" where
  "error_response err = \<lparr>status = 500, body = JObj [(''error'', JStr (message err))]\<rparr>"

text \<open>The \<open>try\<close> block after the connection has been assigned.\<close>

definition after_connect :: "world \<Rightarrow> request \<Rightarrow> jsval \<Rightarrow> (action, response) proc" where
  "after_connect w req config =
     andThen (pure (case req_method req of
                      None \<Rightarrow> Inl (CannotRead ''toLowerCase'' JNull)
                    | Some m \<Rightarrow> Inr (toLowerCase m))) (\<lambda>method.
     andThen (pure (get_prop config ''AccessToken'')) (\<lambda>accessToken.
     andThen (call (NewCredential accessToken) (new_OnBehalfOfUserCredential w accessToken)) (\<lambda>credential.
     andThen (call GetUserInfo (getUserInfo w)) (\<lambda>currentUser.
     andThen (pure (get_prop currentUser ''objectId'')) (\<lambda>objectId.
     andThen (pure (build_query method req objectId)) (\<lambda>query.
     andThen (execQuery w query) (\<lambda>result.
     ([], Done \<lparr>status = 200, body = result\<rparr>))))))))"

text \<open>
  \<open>module.exports\<close>: \<open>loadConfiguration()\<close> runs before the \<open>try\<close>; \<open>catch\<close> turns
  an exception of the block into the 500 response; \<open>finally\<close> closes the connection if
  the variable \<open>connection\<close> was assigned. Where an awaited promise never settles the
  function never resumes, and neither \<open>catch\<close> nor \<open>finally\<close> runs.
\<close>

definition handler :: "world \<Rightarrow> request \<Rightarrow> jsval \<Rightarrow> action list \<times> outcome" where
  "handler w req config =
     (case call LoadConfiguration (loadConfiguration w) of
        (l0, Raise e) \<Rightarrow> (l0, Rejected e)
      | (l0, Stuck) \<Rightarrow> (l0, Pending)
      | (l0, Done u) \<Rightarrow>
          (case getSQLConnection w of
             (l1, Raise err) \<Rightarrow> (l0 @ l1, Returned (error_response err))
           | (l1, Stuck) \<Rightarrow> (l0 @ l1, Pending)
           | (l1, Done connection) \<Rightarrow>
               (case after_connect w req config of
                  (l2, Done r) \<Rightarrow> (l0 @ l1 @ l2 @ [Close], Returned r)
                | (l2, Raise err) \<Rightarrow> (l0 @ l1 @ l2 @ [Close], Returned (error_response err))
                | (l2, Stuck) \<Rightarrow> (l0 @ l1 @ l2, Pending))))"

section \<open>The notification handler\<close>

datatype notify_action =
    ContextLog string
  | ContextLogError exn
  | NewOboCredential jsval
  | CreateGraphClientWithCredential
  | GetMe
  | GetInstallationId jsval
  | NewTeamsFx
  | CreateGraphClient
  | Post string jsval
  | ConsoleLog exn

text \<open>
  The collaborators of \<open>run\<close>: the credential constructor, the graph clients, the
  installation-id lookup (\<open>./getInstallationId\<close>, an asynchronous function from a user
  id to an id) and the post of the notification to a path with a payload.
\<close>

record graph_world =
  OnBehalfOfUserCredential_new :: "jsval \<Rightarrow> exn + unit"
  createMicrosoftGraphClientWithCredential :: "exn + unit"
  api_me_get :: "exn + jsval"
  getInstallationId :: "jsval \<Rightarrow> exn + jsval"
  TeamsFx_new :: "exn + unit"
  createMicrosoftGraphClient :: "exn + unit"
  api_post :: "string \<Rightarrow> jsval \<Rightarrow> exn + unit"

text \<open>The payload, from the texts of the user id and of the installation id.\<close>

definition postbody :: "string \<Rightarrow> string \<Rightarrow> jsval" where
  "postbody userId_text installationId_text =
     JObj [(''topic'',
              JObj [(''source'', JStr ''entityUrl''),
                    (''value'', JStr (''https://graph.microsoft.com/v1.0/users/'' @ userId_text
                                      @ ''/teamwork/installedApps/'' @ installationId_text))]),
           (''activityType'', JStr ''taskCreated''),
           (''previewText'', JObj [(''content'', JStr ''Task Created'')])]"

text \<open>The second \<open>try\<close> block of \<open>run\<close>. The concatenations that build the payload
  convert the user id and then the installation id to text.\<close>

definition send_notification :: "graph_world \<Rightarrow> (notify_action, unit) proc" where
  "send_notification w =
     andThen (call CreateGraphClientWithCredential (createMicrosoftGraphClientWithCredential w)) (\<lambda>graphClient_userId.
     andThen (call GetMe (api_me_get w)) (\<lambda>userProfile.
     andThen (pure (get_prop userProfile ''id'')) (\<lambda>userId.
     andThen (call (GetInstallationId userId) (getInstallationId w userId)) (\<lambda>installationId.
     andThen (pure (to_string userId)) (\<lambda>userId_text.
     andThen (pure (to_string installationId)) (\<lambda>installationId_text.
     andThen (call NewTeamsFx (TeamsFx_new w)) (\<lambda>teamsfx_app.
     andThen (call CreateGraphClient (createMicrosoftGraphClient w)) (\<lambda>graphClient.
     call (Post (''users/'' @ userId_text @ ''/teamwork/sendActivityNotification'')
                (postbody userId_text installationId_text))
          (api_post w (''users/'' @ userId_text @ ''/teamwork/sendActivityNotification'')
                (postbody userId_text installationId_text))))))))))"

text \<open>The response \<open>res\<close> prepared at the start: \<open>req.headers || ""\<close> is echoed.\<close>

definition res_200 :: "request \<Rightarrow> response" where
  "res_200 req =
     \<lparr>status = 200,
      body = JObj [(''receivedHTTPRequestBody'',
                    if truthy (req_headers req) then req_headers req else JStr [])]\<rparr>"

definition run :: "graph_world \<Rightarrow> request \<Rightarrow> jsval \<Rightarrow> notify_action list \<times> outcome" where
  "run w req teamsfxContext =
     (let l0 = [ContextLog ''HTTP trigger function processed a request.''];
          res = res_200 req
      in case get_prop teamsfxContext ''AccessToken'' of
           Inl e \<Rightarrow> (l0, Rejected e)
         | Inr accessToken \<Rightarrow>
             if \<not> truthy accessToken then
               (l0, Returned \<lparr>status = 400,
                              body = JObj [(''error'', JStr ''No access token was found in request header.'')]\<rparr>)
             else
               (case OnBehalfOfUserCredential_new w accessToken of
                  Inl e \<Rightarrow>
                    (l0 @ [NewOboCredential accessToken, ContextLogError e],
                     Returned \<lparr>status = 500,
                               body = JObj [(''error'',
                                  JStr (''Failed to construct OnBehalfOfUserCredential using your accessToken. ''
                                        @ ''Ensure your function app is configured with the right Azure AD App registration.''))]\<rparr>)
                | Inr oboCredential \<Rightarrow>
                    (case send_notification w of
                       (l, Done u) \<Rightarrow> (l0 @ [NewOboCredential accessToken] @ l, Returned res)
                     | (l, Raise e) \<Rightarrow>
                         (l0 @ [NewOboCredential accessToken] @ l @ [ConsoleLog e], Returned res)
                     | (l, Stuck) \<Rightarrow> (l0 @ [NewOboCredential accessToken] @ l, Pending))))"

section \<open>Statements and rows\<close>

text \<open>The shapes of the statement texts of the task store, to compare the constructed
  text with.\<close>

definition quoted :: "string \<Rightarrow> string" where
  "quoted s = [CHR 0x27] @ s @ [CHR 0x27]"

definition select_by_channel :: "string \<Rightarrow> string" where
  "select_by_channel c =
     ''select id, description, isCompleted, objectId from dbo.Todo where channelOrChatId = '' @ quoted c"

definition update_column :: "string \<Rightarrow> string \<Rightarrow> string \<Rightarrow> string" where
  "update_column column new_value row_id =
     ''update dbo.Todo set '' @ column @ '' = '' @ new_value @ '' where id = '' @ row_id"

definition delete_where :: "string \<Rightarrow> string \<Rightarrow> string" where
  "delete_where column wanted = ''delete from dbo.Todo where '' @ column @ '' = '' @ wanted"

text \<open>
  The statements the specification speaks of, as syntax: an update that assigns one
  column of the rows selected by one comparison, and a delete of the rows selected by one
  comparison. A literal is an integer, or a text between single quotes (with the prefix
  \<open>N\<close> for Unicode text); the text of a well-formed literal holds no single quote, so
  that the closing quote of the literal is the one written by \<open>render\<close>.
\<close>

datatype literal = IntLit int | TextLit string | NTextLit string

datatype condition = Equals string literal

datatype statement =
    Update string literal condition
  | Delete condition

fun render_literal :: "literal \<Rightarrow> string" where
  "render_literal (IntLit n) = show_int n"
| "render_literal (TextLit s) = quoted s"
| "render_literal (NTextLit s) = ''N'' @ quoted s"

fun render_condition :: "condition \<Rightarrow> string" where
  "render_condition (Equals column l) = column @ '' = '' @ render_literal l"

fun render :: "statement \<Rightarrow> string" where
  "render (Update column l c) =
     ''update dbo.Todo set '' @ column @ '' = '' @ render_literal l @ '' where '' @ render_condition c"
| "render (Delete c) = ''delete from dbo.Todo where '' @ render_condition c"

fun literal_ok :: "literal \<Rightarrow> bool" where
  "literal_ok (IntLit n) = True"
| "literal_ok (TextLit s) = (CHR 0x27 \<notin> set s)"
| "literal_ok (NTextLit s) = (CHR 0x27 \<notin> set s)"

fun well_formed :: "statement \<Rightarrow> bool" where
  "well_formed (Update column l (Equals k v)) = (literal_ok l \<and> literal_ok v)"
| "well_formed (Delete (Equals k v)) = literal_ok v"

text \<open>
  Modelled from the spec: the rows of the table \<open>dbo.Todo(id, description, isCompleted,
  objectId, channelOrChatId)\<close>, which lives in the external store. \<open>columns_of\<close> is a row
  as the driver delivers it for the select list \<open>id, description, isCompleted, objectId\<close>,
  and \<open>store_answer\<close> the answer to a request that succeeds with the given rows.
\<close>

record todo =
  todo_id :: safe_int
  todo_description :: string
  todo_isCompleted :: bool
  todo_objectId :: string
  todo_channelOrChatId :: string

definition columns_of :: "todo \<Rightarrow> (string \<times> jsval) list" where
  "columns_of t =
     [(''id'', JNum (todo_id t)), (''description'', JStr (todo_description t)),
      (''isCompleted'', JBool (todo_isCompleted t)), (''objectId'', JStr (todo_objectId t))]"

definition store_answer :: "todo list \<Rightarrow> answer" where
  "store_answer rows =
     Events (map (\<lambda>t. Row (columns_of t)) rows @ [Callback None, RequestCompleted])"

definition in_channel :: "string \<Rightarrow> todo list \<Rightarrow> todo list" where
  "in_channel c table = filter (\<lambda>t. todo_channelOrChatId t = c) table"

section \<open>Sample requests and collaborators\<close>

definition sample_user :: jsval where
  "sample_user = JObj [(''objectId'', JStr ''u1'')]"

definition sample_config :: jsval where
  "sample_config = JObj [(''AccessToken'', JStr ''sso-token'')]"

definition sample_request :: "string \<Rightarrow> jsval \<Rightarrow> jsval \<Rightarrow> request" where
  "sample_request m q b =
     \<lparr>req_method = Some m, req_query = q, req_body = b,
      req_headers = JObj [(''accept'', JStr ''application/json'')]\<rparr>"

text \<open>A world in which configuration, connection and identity are fine; the driver is
  left open.\<close>

definition healthy_world :: "(jsval \<Rightarrow> answer) \<Rightarrow> world" where
  "healthy_world driver =
     \<lparr>loadConfiguration = Inr (), getConfig = Inr (), new_Connection = Inr (),
      connect_error = None, new_OnBehalfOfUserCredential = (\<lambda>token. Inr ()),
      getUserInfo = Inr sample_user, execSql = driver\<rparr>"

text \<open>A store that rejects the statement (the table is missing): the driver takes the
  request, calls the request callback with the error of the store when the reply has
  come, and emits nothing more.\<close>

definition rejecting_driver :: "jsval \<Rightarrow> answer" where
  "rejecting_driver q = Events [Callback (Some (Error ''Invalid object name dbo.Todo.''))]"


text \<open>On a connection that could not be established the driver refuses every request
  on the spot.\<close>

definition offline_driver :: "jsval \<Rightarrow> answer" where
  "offline_driver q =
     Refused (Error ''Requests can only be made in the LoggedIn state, not the Final state'')"

definition unreachable_world :: world where
  "unreachable_world =
     (healthy_world offline_driver)
       \<lparr>connect_error := Some (Error ''Failed to connect to sql.example.net:1433 - connect ETIMEDOUT'')\<rparr>"

definition sample_table :: "todo list" where
  "sample_table =
     [\<lparr>todo_id = 1, todo_description = ''Buy milk'', todo_isCompleted = False,
       todo_objectId = ''u1'', todo_channelOrChatId = ''c1''\<rparr>,
      \<lparr>todo_id = 2, todo_description = ''Call Bob'', todo_isCompleted = True,
       todo_objectId = ''u2'', todo_channelOrChatId = ''c2''\<rparr>,
      \<lparr>todo_id = 3, todo_description = ''Pay rent'', todo_isCompleted = True,
       todo_objectId = ''u2'', todo_channelOrChatId = ''c1''\<rparr>]"

text \<open>A store holding \<open>sample_table\<close> that is asked for the channel \<open>c1\<close>.\<close>

definition sample_driver :: "jsval \<Rightarrow> answer" where
  "sample_driver q =
     (if q = JStr (select_by_channel ''c1'') then store_answer (in_channel ''c1'' sample_table)
      else Events [Callback (Some (Error ''Incorrect syntax.''))])"

text \<open>Collaborators of the notification handler, all of which succeed, and one whose
  graph profile cannot be read.\<close>

definition graph_ok :: graph_world where
  "graph_ok =
     \<lparr>OnBehalfOfUserCredential_new = (\<lambda>token. Inr ()),
      createMicrosoftGraphClientWithCredential = Inr (),
      api_me_get = Inr (JObj [(''id'', JStr ''user-7'')]),
      getInstallationId = (\<lambda>userId. Inr (JStr ''inst-3'')),
      TeamsFx_new = Inr (),
      createMicrosoftGraphClient = Inr (),
      api_post = (\<lambda>path payload. Inr ())\<rparr>"

definition graph_down :: graph_world where
  "graph_down = graph_ok\<lparr>api_me_get := Inl (Error ''Access denied'')\<rparr>"

section \<open>Properties of the query construction\<close>

lemmas stmt_defs = quoted_def select_by_channel_def update_column_def delete_where_def


lemma put_without_body_throws:
  "req_body req = JUndefined \<Longrightarrow>
   build_query ''put'' req oid = Inl (CannotRead ''description'' JUndefined)"
  by (simp add: build_query_def try_then_def)

text \<open>An interpolated value that has no text makes the construction throw, and an
  interpolated text is not escaped: what the properties below say of the constructed
  statement, they say for values that have a text, and they read the statement as syntax
  only where the text is a literal.\<close>

lemma id_without_text_throws:
  "build_query ''delete''
     (sample_request ''DELETE'' (JObj []) (JObj [(''id'', JObj [(''toString'', JNum 1)])])) (JStr ''u1'')
   = Inl CannotConvert"
  by (simp add: build_query_def try_then_def sample_request_def)

lemma quote_in_description_is_not_escaped:
  "build_query ''put''
     (sample_request ''PUT'' (JObj [])
        (JObj [(''id'', JNum 4), (''description'', JStr (''x'' @ [CHR 0x27] @ '', isCompleted = 1 --''))]))
     (JStr ''u1'')
   = Inr (JStr (''update dbo.Todo set description = N'' @ [CHR 0x27] @ ''x'' @ [CHR 0x27]
                @ '', isCompleted = 1 --'' @ [CHR 0x27] @ '' where id = 4''))"
  by (simp add: build_query_def try_then_def sample_request_def show_int_def show_nat.simps
      digit_char_def)

text \<open>
  C3, as amended. The delete branch tests the body, not the \<open>id\<close>. If the request body
  supplies an \<open>id\<close> that has a text, the statement is \<open>delete from dbo.Todo where id =
  <id>\<close> with that text, and for a number \<open>n\<close> it is the well-formed delete of the rows
  whose \<open>id\<close> is \<open>n\<close>. If the request has no body (\<open>req.body\<close> is \<open>undefined\<close>,
  \<open>null\<close> or another falsy value), the statement is \<open>delete from dbo.Todo where
  objectId = '<objectId>'\<close> with the text of the caller's derived identity, and for an
  identity that is a string without single quote it is the well-formed delete of the rows
  whose \<open>objectId\<close> is that identity.
\<close>

theorem delete_statement:
  "(req_body req = JObj kvs \<longrightarrow> map_of kvs ''id'' = Some i \<longrightarrow> to_string i = Inr id_text \<longrightarrow>
      build_query ''delete'' req oid = Inr (JStr (delete_where ''id'' id_text)))
   \<and> (req_body req = JObj kvs \<longrightarrow> map_of kvs ''id'' = Some (JNum n) \<longrightarrow>
      build_query ''delete'' req oid = Inr (JStr (render (Delete (Equals ''id'' (IntLit (sint n))))))
      \<and> well_formed (Delete (Equals ''id'' (IntLit (sint n)))))
   \<and> (\<not> truthy (req_body req) \<longrightarrow> to_string oid = Inr oid_text \<longrightarrow>
      build_query ''delete'' req oid = Inr (JStr (delete_where ''objectId'' (quoted oid_text))))
   \<and> (\<not> truthy (req_body req) \<longrightarrow> oid = JStr owner \<longrightarrow> CHR 0x27 \<notin> set owner \<longrightarrow>
      build_query ''delete'' req oid = Inr (JStr (render (Delete (Equals ''objectId'' (TextLit owner)))))
      \<and> well_formed (Delete (Equals ''objectId'' (TextLit owner))))"
proof (cases "truthy (req_body req)")
  case True
  then show ?thesis
    by (auto simp: build_query_def try_then_def delete_where_def)
next
  case False
  then show ?thesis
    by (auto simp: build_query_def try_then_def delete_where_def quoted_def)
qed

text \<open>The amended C3 at a body \<open>{id: 5}\<close> and at an absent body, for the caller \<open>u1\<close>.\<close>

theorem delete_statement_witness:
  "build_query ''delete'' (sample_request ''DELETE'' (JObj []) (JObj [(''id'', JNum 5)])) (JStr ''u1'')
     = Inr (JStr ''delete from dbo.Todo where id = 5'')
   \<and> well_formed (Delete (Equals ''id'' (IntLit 5)))
   \<and> build_query ''delete'' (sample_request ''DELETE'' (JObj []) JUndefined) (JStr ''u1'')
     = Inr (JStr (''delete from dbo.Todo where objectId = '' @ [CHR 0x27] @ ''u1'' @ [CHR 0x27]))
   \<and> well_formed (Delete (Equals ''objectId'' (TextLit ''u1'')))"
  using delete_statement [of "sample_request ''DELETE'' (JObj []) (JObj [(''id'', JNum 5)])"
      "[(''id'', JNum 5)]" "JNum 5" "''5''" "JStr ''u1''" 5 "''u1''" "''u1''"]
    delete_statement [of "sample_request ''DELETE'' (JObj []) JUndefined"
      "[]" JUndefined "''undefined''" "JStr ''u1''" 0 "''u1''" "''u1''"]
  by (simp add: sample_request_def stmt_defs show_int_def show_nat.simps digit_char_def)

text \<open>
  C3 as stated fails: the body \<open>{}\<close> supplies no \<open>id\<close>, and the statement is not the
  delete of the caller's rows but \<open>delete from dbo.Todo where id = undefined\<close>.
\<close>

theorem delete_without_id_counterexample:
  "get_prop (JObj []) ''id'' = Inr JUndefined
   \<and> build_query ''delete''
       \<lparr>req_method = Some ''DELETE'', req_query = JObj [], req_body = JObj [], req_headers = JObj []\<rparr>
       (JStr ''u1'')
     = Inr (JStr ''delete from dbo.Todo where id = undefined'')
   \<and> build_query ''delete''
       \<lparr>req_method = Some ''DELETE'', req_query = JObj [], req_body = JObj [], req_headers = JObj []\<rparr>
       (JStr ''u1'')
     \<noteq> Inr (JStr (delete_where ''objectId'' (quoted ''u1'')))"
  by (simp add: build_query_def try_then_def stmt_defs)






section \<open>Properties of the task-store handler\<close>

lemmas handler_defs = handler_def call_def getSQLConnection_def andThen_def on_connect_def
  after_connect_def pure_def execQuery_def run_events_def

lemmas sample_defs = healthy_world_def sample_user_def sample_config_def sample_request_def

subsection \<open>What holds on every path that reaches the \<open>finally\<close> block\<close>

lemma after_connect_no_close: "Close \<notin> set (fst (after_connect w req config))"
  by (auto simp: after_connect_def andThen_def pure_def call_def execQuery_def Let_def
      split: sum.splits option.splits step.splits prod.splits answer.splits)

lemma getSQLConnection_no_close: "Close \<notin> set (fst (getSQLConnection w))"
  by (auto simp: getSQLConnection_def andThen_def call_def on_connect_def
      split: sum.splits option.splits step.splits prod.splits)

text \<open>When the handler returns a response and the connection had been acquired, \<open>close\<close>
  was called once, as the last call before the return.\<close>

lemma handler_closes_once:
  assumes "handler w req config = (l, Returned r)" and "snd (getSQLConnection w) = Done ()"
  shows "count_list l Close = 1 \<and> last l = Close"
proof -
  obtain l1 where g: "getSQLConnection w = (l1, Done ())"
    using assms(2) by (cases "getSQLConnection w") auto
  have n1: "Close \<notin> set l1"
    using getSQLConnection_no_close [of w] g by simp
  obtain l2 s2 where a: "after_connect w req config = (l2, s2)"
    by (cases "after_connect w req config") auto
  have n2: "Close \<notin> set l2"
    using after_connect_no_close [of w req config] a by simp
  show ?thesis
    using assms(1) g a n1 n2
    by (auto simp: handler_def call_def count_list_0_iff split: sum.splits step.splits)
qed

text \<open>A failure to get the connection configuration, or to construct the connection,
  is answered with 500 and the message, and nothing else is called.\<close>

lemma config_failure_is_500:
  assumes "loadConfiguration w = Inr ()" and "getConfig w = Inl e"
  shows "handler w req config =
           ([LoadConfiguration, GetConfig],
            Returned \<lparr>status = 500, body = JObj [(''error'', JStr (message e))]\<rparr>)"
  using assms by (simp add: handler_defs error_response_def)

lemma constructor_failure_is_500:
  assumes "loadConfiguration w = Inr ()" and "getConfig w = Inr ()" and "new_Connection w = Inl e"
  shows "handler w req config =
           ([LoadConfiguration, GetConfig, NewConnection],
            Returned \<lparr>status = 500, body = JObj [(''error'', JStr (message e))]\<rparr>)"
  using assms by (simp add: handler_defs error_response_def)

text \<open>The error of the \<open>connect\<close> event has no effect on what the handler does.\<close>

lemma handler_ignores_connect_error:
  "handler (w\<lparr>connect_error := e\<rparr>) req config = handler w req config"
  by (simp add: handler_defs)

text \<open>An exception thrown inside the \<open>try\<close> block, after the connection was acquired,
  is answered with 500 and its message.\<close>

lemma handler_catches_try_block:
  assumes "loadConfiguration w = Inr ()" and "snd (getSQLConnection w) = Done ()"
    and "snd (after_connect w req config) = Raise e"
  shows "snd (handler w req config) =
           Returned \<lparr>status = 500, body = JObj [(''error'', JStr (message e))]\<rparr>"
  using assms
  by (cases "getSQLConnection w"; cases "after_connect w req config")
     (simp add: handler_def call_def error_response_def)

subsection \<open>The statement that is executed\<close>

lemma execQuery_log:
  "ExecSql q' \<in> set (fst (execQuery w q)) \<longleftrightarrow> q' = q"
  by (auto simp: execQuery_def Let_def split: answer.splits)

text \<open>With configuration, connection and identity fine, the one statement handed to the
  driver is the value the \<open>switch\<close> constructs from the lower-cased method, the request
  and the \<open>objectId\<close> of the user that \<open>getUserInfo\<close> returned.\<close>

lemma handler_executes_built_query:
  assumes "loadConfiguration w = Inr ()" and "snd (getSQLConnection w) = Done ()"
    and "req_method req = Some m"
    and "get_prop config ''AccessToken'' = Inr token"
    and "new_OnBehalfOfUserCredential w token = Inr ()"
    and "getUserInfo w = Inr user" and "get_prop user ''objectId'' = Inr oid"
    and "build_query (toLowerCase m) req oid = Inr q"
  shows "ExecSql q' \<in> set (fst (handler w req config)) \<longleftrightarrow> q' = q"
proof -
  obtain l1 where g: "getSQLConnection w = (l1, Done ())"
    using assms(2) by (cases "getSQLConnection w") auto
  have n1: "ExecSql q' \<notin> set l1"
    using g by (auto simp: getSQLConnection_def andThen_def call_def on_connect_def
        split: sum.splits)
  obtain l s where e: "execQuery w q = (l, s)"
    by (cases "execQuery w q")
  have le: "ExecSql q' \<in> set l \<longleftrightarrow> q' = q"
    using execQuery_log [of q' w q] e by simp
  have a: "fst (after_connect w req config) = [NewCredential token, GetUserInfo] @ l"
    using assms(3-8) e
    by (cases s) (simp_all add: after_connect_def andThen_def pure_def call_def)
  obtain l2 s2 where a2: "after_connect w req config = (l2, s2)"
    by (cases "after_connect w req config")
  show ?thesis
    using assms(1) g a a2 n1 le
    by (cases s2) (auto simp: handler_def call_def)
qed

subsection \<open>Requests the driver refuses, completes or fails\<close>

lemma foldl_row_events:
  "foldl on_event s (map Row rs) = s\<lparr>res := res s @ map row_of rs\<rparr>"
  by (induction rs arbitrary: s) simp_all


lemma completed_request_resolves:
  assumes "execSql w q = Events (map Row rs @ [Callback None, RequestCompleted])"
  shows "execQuery w q = ([ExecSql q], Done (JArr (map row_of rs)))"
  using assms by (simp add: execQuery_def run_events_def foldl_row_events)

lemma failed_request_never_settles:
  assumes "execSql w q = Events (map Row rs @ [Callback (Some e)])"
  shows "execQuery w q = ([ExecSql q, Uncaught e], Stuck)"
  using assms by (simp add: execQuery_def run_events_def foldl_row_events)

text \<open>Where the \<open>try\<close> block never resumes, the handler returns nothing and the
  connection it acquired stays open.\<close>

lemma handler_stuck_keeps_connection:
  assumes "loadConfiguration w = Inr ()" and "snd (getSQLConnection w) = Done ()"
    and "snd (after_connect w req config) = Stuck"
  shows "snd (handler w req config) = Pending \<and> Close \<notin> set (fst (handler w req config))"
proof -
  obtain l1 where g: "getSQLConnection w = (l1, Done ())"
    using assms(2) by (cases "getSQLConnection w") auto
  obtain l2 where a: "after_connect w req config = (l2, Stuck)"
    using assms(3) by (cases "after_connect w req config") auto
  have "Close \<notin> set l1" "Close \<notin> set l2"
    using getSQLConnection_no_close [of w] after_connect_no_close [of w req config] g a by simp_all
  then show ?thesis
    using assms(1) g a by (simp add: handler_def call_def)
qed

subsection \<open>Where the code leaves the specification\<close>

text \<open>
  C1 fails on the code. A read request whose statement the store rejects: the driver calls
  the request callback with the error, the callback throws it inside the driver, where no
  \<open>try\<close> of the handler can catch it, and \<open>requestCompleted\<close> never resolves the
  promise. The exception is uncaught and the handler never resolves to a response.
\<close>

theorem query_error_escapes_handler:
  "handler (healthy_world rejecting_driver)
     (sample_request ''GET'' (JObj [(''channelOrChatId'', JStr ''c1'')]) JUndefined) sample_config
   = ([LoadConfiguration, GetConfig, NewConnection, NewCredential (JStr ''sso-token''), GetUserInfo,
       ExecSql (JStr (select_by_channel ''c1'')), Uncaught (Error ''Invalid object name dbo.Todo.'')],
      Pending)"
  by (simp add: handler_defs sample_defs rejecting_driver_def toLowerCase_def to_lower_char_def
      build_query_def try_then_def stmt_defs)

text \<open>
  C2 fails on the code. An update request whose statement the store rejects: the connection
  was acquired, the handler never resumes after \<open>await execQuery\<close>, the \<open>finally\<close>
  block never runs, and \<open>close\<close> is never called.
\<close>

theorem query_error_leaves_connection_open:
  "snd (getSQLConnection (healthy_world rejecting_driver)) = Done ()
   \<and> handler (healthy_world rejecting_driver)
       (sample_request ''PUT'' (JObj []) (JObj [(''id'', JNum 5), (''isCompleted'', JBool True)]))
       sample_config
     = ([LoadConfiguration, GetConfig, NewConnection, NewCredential (JStr ''sso-token''), GetUserInfo,
         ExecSql (JStr ''update dbo.Todo set isCompleted = 1 where id = 5''),
         Uncaught (Error ''Invalid object name dbo.Todo.'')],
        Pending)
   \<and> count_list
       (fst (handler (healthy_world rejecting_driver)
              (sample_request ''PUT'' (JObj []) (JObj [(''id'', JNum 5), (''isCompleted'', JBool True)]))
              sample_config))
       Close = 0"
  by (simp add: handler_defs sample_defs rejecting_driver_def toLowerCase_def to_lower_char_def
      build_query_def try_then_def flag_def show_int_def show_nat.simps digit_char_def)

text \<open>
  C5 fails on the code. The store cannot be reached and the \<open>connect\<close> event carries
  the error: the listener resolves with the connection all the same, and the handler does
  not stop there. It constructs the credential, derives the identity and hands the
  statement to the driver; the 500 response comes only from the driver's refusal of the
  request on the dead connection and carries that message, not the connection error.
\<close>

theorem connect_error_is_ignored:
  "connect_error unreachable_world
     = Some (Error ''Failed to connect to sql.example.net:1433 - connect ETIMEDOUT'')
   \<and> handler unreachable_world
       (sample_request ''GET'' (JObj [(''channelOrChatId'', JStr ''c1'')]) JUndefined) sample_config
     = ([LoadConfiguration, GetConfig, NewConnection, NewCredential (JStr ''sso-token''), GetUserInfo,
         ExecSql (JStr (select_by_channel ''c1'')), Close],
        Returned \<lparr>status = 500,
                  body = JObj [(''error'',
                    JStr ''Requests can only be made in the LoggedIn state, not the Final state'')]\<rparr>)"
  by (simp add: handler_defs sample_defs unreachable_world_def offline_driver_def toLowerCase_def
      to_lower_char_def build_query_def try_then_def stmt_defs error_response_def)

subsection \<open>Requests with another method\<close>



subsection \<open>Read requests\<close>

text \<open>An object built from columns whose names are distinct, and neither array indices
  nor \<open>__proto__\<close>, lists them in the order of the columns.\<close>

lemma foldl_set_prop_plain:
  "distinct (map fst (acc @ cols)) \<Longrightarrow>
   list_all (\<lambda>c. \<not> is_array_index (fst c) \<and> fst c \<noteq> ''__proto__'') cols \<Longrightarrow>
   foldl (\<lambda>row (colName, val). set_prop row colName val) acc cols = acc @ cols"
proof (induction cols arbitrary: acc)
  case Nil
  then show ?case by simp
next
  case (Cons c cols)
  obtain k v where c: "c = (k, v)" by (cases c)
  have fresh: "map_of acc k = None"
    using Cons.prems(1) c by (auto simp: map_of_eq_None_iff)
  have step: "set_prop acc k v = acc @ [(k, v)]"
    using fresh Cons.prems(2) c by (simp add: set_prop_def)
  have "foldl (\<lambda>row (colName, val). set_prop row colName val) (acc @ [(k, v)]) cols
          = (acc @ [(k, v)]) @ cols"
    using Cons.prems c by (intro Cons.IH) simp_all
  then show ?case using step c by simp
qed

lemma row_of_preserves_order:
  "distinct (map fst cols) \<Longrightarrow>
   list_all (\<lambda>c. \<not> is_array_index (fst c) \<and> fst c \<noteq> ''__proto__'') cols \<Longrightarrow>
   row_of cols = JObj cols"
  using foldl_set_prop_plain [of "[]" cols] by (simp add: row_of_def)

lemma row_of_columns_of: "row_of (columns_of t) = JObj (columns_of t)"
  by (rule row_of_preserves_order)
     (simp_all add: columns_of_def is_array_index_def is_digit_def)

lemma execQuery_store_answer:
  assumes "execSql w q = store_answer rows"
  shows "execQuery w q = ([ExecSql q], Done (JArr (map (\<lambda>t. JObj (columns_of t)) rows)))"
  using assms completed_request_resolves [of w q "map columns_of rows"]
  by (simp add: store_answer_def comp_def row_of_columns_of)

text \<open>
  C8. A valid read request for the channel \<open>c\<close>: configuration, connection and identity
  are fine, the method is \<open>get\<close> in any letter case, and the store answers the statement
  the handler sends, the select with \<open>where channelOrChatId = 'c'\<close>, with the rows of its
  table in that channel. Then the response is 200 and its body is the sequence of exactly
  those rows, in the store's order, each one the mapping from column name to value in the
  column order the store reported; the connection is closed before the return.
\<close>

theorem read_returns_matching_rows:
  assumes "loadConfiguration w = Inr ()" and "getConfig w = Inr ()" and "new_Connection w = Inr ()"
    and "req_method req = Some m" and "toLowerCase m = ''get''"
    and "get_prop config ''AccessToken'' = Inr token"
    and "new_OnBehalfOfUserCredential w token = Inr ()"
    and "getUserInfo w = Inr user" and "get_prop user ''objectId'' = Inr oid"
    and "get_prop (req_query req) ''channelOrChatId'' = Inr (JStr c)"
    and "execSql w (JStr (select_by_channel c)) = store_answer (in_channel c table)"
  shows "handler w req config =
           ([LoadConfiguration, GetConfig, NewConnection, NewCredential token, GetUserInfo,
             ExecSql (JStr (select_by_channel c)), Close],
            Returned \<lparr>status = 200,
                      body = JArr (map (\<lambda>t. JObj (columns_of t)) (in_channel c table))\<rparr>)"
proof -
  have q: "build_query ''get'' req oid = Inr (JStr (select_by_channel c))"
    using assms(10) by (simp add: build_query_def try_then_def stmt_defs)
  have e: "execQuery w (JStr (select_by_channel c))
             = ([ExecSql (JStr (select_by_channel c))],
                Done (JArr (map (\<lambda>t. JObj (columns_of t)) (in_channel c table))))"
    using assms(11) by (rule execQuery_store_answer)
  have a: "after_connect w req config
             = ([NewCredential token, GetUserInfo, ExecSql (JStr (select_by_channel c))],
                Done \<lparr>status = 200,
                      body = JArr (map (\<lambda>t. JObj (columns_of t)) (in_channel c table))\<rparr>)"
    using assms(4-9) q e by (simp add: after_connect_def andThen_def pure_def call_def)
  have g: "getSQLConnection w = ([GetConfig, NewConnection], Done ())"
    using assms(2,3) by (simp add: getSQLConnection_def andThen_def call_def on_connect_def)
  show ?thesis
    using assms(1) g a by (simp add: handler_def call_def)
qed

text \<open>C8 on the sample table: the rows 1 and 3 are those of the channel \<open>c1\<close>.\<close>

theorem read_returns_matching_rows_witness:
  "handler (healthy_world sample_driver)
     (sample_request ''GET'' (JObj [(''channelOrChatId'', JStr ''c1'')]) JUndefined) sample_config
   = ([LoadConfiguration, GetConfig, NewConnection, NewCredential (JStr ''sso-token''), GetUserInfo,
       ExecSql (JStr (select_by_channel ''c1'')), Close],
      Returned \<lparr>status = 200,
                body = JArr [JObj [(''id'', JNum 1), (''description'', JStr ''Buy milk''),
                                   (''isCompleted'', JBool False), (''objectId'', JStr ''u1'')],
                             JObj [(''id'', JNum 3), (''description'', JStr ''Pay rent''),
                                   (''isCompleted'', JBool True), (''objectId'', JStr ''u2'')]]\<rparr>)"
  using read_returns_matching_rows [of "healthy_world sample_driver"
      "sample_request ''GET'' (JObj [(''channelOrChatId'', JStr ''c1'')]) JUndefined"
      "''GET''" sample_config "JStr ''sso-token''" sample_user "JStr ''u1''" "''c1''" sample_table]
  by (simp add: sample_defs sample_driver_def toLowerCase_def to_lower_char_def
      in_channel_def sample_table_def columns_of_def)

section \<open>Properties of the notification handler\<close>

lemma send_notification_settles: "snd (send_notification w) \<noteq> Stuck"
  by (auto simp: send_notification_def andThen_def pure_def call_def
      split: sum.splits step.splits prod.splits)

text \<open>
  C6. A request whose context carries no access token (the property is absent, or holds
  a falsy value) is answered with 400 and an error body; the only call made is the log
  line at entry, so the construction of the on-behalf-of credential is never attempted.
\<close>

theorem missing_token_is_400:
  assumes "get_prop teamsfxContext ''AccessToken'' = Inr accessToken" and "\<not> truthy accessToken"
  shows "run w req teamsfxContext =
           ([ContextLog ''HTTP trigger function processed a request.''],
            Returned \<lparr>status = 400,
                      body = JObj [(''error'', JStr ''No access token was found in request header.'')]\<rparr>)"
  using assms by (simp add: run_def)

text \<open>C6 at a context that has a user id and no token.\<close>

theorem missing_token_is_400_witness:
  "run graph_ok (sample_request ''POST'' (JObj []) JUndefined) (JObj [(''UserId'', JStr ''user-7'')]) =
     ([ContextLog ''HTTP trigger function processed a request.''],
      Returned \<lparr>status = 400,
                body = JObj [(''error'', JStr ''No access token was found in request header.'')]\<rparr>)"
  using missing_token_is_400 [of "JObj [(''UserId'', JStr ''user-7'')]" JUndefined graph_ok
      "sample_request ''POST'' (JObj []) JUndefined"]
  by simp

text \<open>
  C7. With a token present and the credential constructed, the handler returns the
  response prepared at the start, status 200 with the echoed request headers as the only
  entry of the body, whatever the graph client, the profile read, the installation-id
  lookup and the post do; a failure of any of them is written to the console after the
  calls made so far, and nothing else follows it.
\<close>

theorem notification_failure_is_swallowed:
  assumes "get_prop teamsfxContext ''AccessToken'' = Inr accessToken" and "truthy accessToken"
    and "OnBehalfOfUserCredential_new w accessToken = Inr ()"
  shows "snd (run w req teamsfxContext) =
           Returned \<lparr>status = 200,
                     body = JObj [(''receivedHTTPRequestBody'',
                                   if truthy (req_headers req) then req_headers req else JStr [])]\<rparr>
         \<and> (\<forall>l e. send_notification w = (l, Raise e) \<longrightarrow>
               fst (run w req teamsfxContext) =
                 [ContextLog ''HTTP trigger function processed a request.'',
                  NewOboCredential accessToken] @ l @ [ConsoleLog e])"
proof -
  obtain l s where n: "send_notification w = (l, s)"
    by (cases "send_notification w")
  have "s \<noteq> Stuck"
    using send_notification_settles [of w] n by simp
  then show ?thesis
    using assms n by (cases s) (simp_all add: run_def res_200_def)
qed

text \<open>C7 where the profile read is refused: the error is logged and the answer is 200.\<close>

theorem notification_failure_is_swallowed_witness:
  "run graph_down (sample_request ''POST'' (JObj []) JUndefined) (JObj [(''AccessToken'', JStr ''sso-token'')])
     = ([ContextLog ''HTTP trigger function processed a request.'', NewOboCredential (JStr ''sso-token''),
         CreateGraphClientWithCredential, GetMe, ConsoleLog (Error ''Access denied'')],
        Returned \<lparr>status = 200,
                  body = JObj [(''receivedHTTPRequestBody'', JObj [(''accept'', JStr ''application/json'')])]\<rparr>)"
proof -
  have s: "send_notification graph_down
             = ([CreateGraphClientWithCredential, GetMe], Raise (Error ''Access denied''))"
    by (simp add: send_notification_def graph_down_def graph_ok_def andThen_def call_def)
  have "snd (run graph_down (sample_request ''POST'' (JObj []) JUndefined)
               (JObj [(''AccessToken'', JStr ''sso-token'')]))
          = Returned \<lparr>status = 200,
                      body = JObj [(''receivedHTTPRequestBody'', JObj [(''accept'', JStr ''application/json'')])]\<rparr>
        \<and> fst (run graph_down (sample_request ''POST'' (JObj []) JUndefined)
               (JObj [(''AccessToken'', JStr ''sso-token'')]))
          = [ContextLog ''HTTP trigger function processed a request.'', NewOboCredential (JStr ''sso-token'')]
              @ [CreateGraphClientWithCredential, GetMe] @ [ConsoleLog (Error ''Access denied'')]"
    using notification_failure_is_swallowed [of "JObj [(''AccessToken'', JStr ''sso-token'')]"
        "JStr ''sso-token''" graph_down "sample_request ''POST'' (JObj []) JUndefined"] s
    by (simp add: graph_down_def graph_ok_def sample_request_def)
  then show ?thesis
    by (simp add: prod_eq_iff)
qed

end
